theory Spec2Isabelle
  imports Main "HOL-Library.Sublist" "HOL-Library.Char_ord" "HOL-Library.List_Lexorder"
begin

section \<open>Python string primitives\<close>

text \<open>
  A Python \<open>str\<close> is modelled as a \<open>string\<close>, one \<open>char\<close> per code point, so the model
  covers the strings whose code points are below 256. The character tables are the ones
  Python uses for those code points.
\<close>

definition py_isspace :: "char \<Rightarrow> bool" where
  "py_isspace c =
     (let n = (of_char c :: nat)
      in (9 \<le> n \<and> n \<le> 13) \<or> (28 \<le> n \<and> n \<le> 32) \<or> n = 133 \<or> n = 160)"

definition quote_chars :: "char list" where
  "quote_chars = [CHR 0x22, CHR 0x27, CHR 0x60]"

text \<open>\<open>s.strip()\<close>: whitespace removed at both ends.\<close>

definition py_strip :: "string \<Rightarrow> string" where
  "py_strip s = rev (dropWhile py_isspace (rev (dropWhile py_isspace s)))"

text \<open>\<open>s.strip(chars)\<close>: the characters of \<open>chars\<close> removed at both ends.\<close>

definition py_strip_chars :: "char list \<Rightarrow> string \<Rightarrow> string" where
  "py_strip_chars cs s =
     rev (dropWhile (\<lambda>c. c \<in> set cs) (rev (dropWhile (\<lambda>c. c \<in> set cs) s)))"

definition py_startswith :: "string \<Rightarrow> string \<Rightarrow> bool" where
  "py_startswith s p = prefix p s"

text \<open>\<open>sub in s\<close>.\<close>

fun py_contains :: "string \<Rightarrow> string \<Rightarrow> bool" where
  "py_contains sub [] = (sub = [])"
| "py_contains sub (c # cs) = (prefix sub (c # cs) \<or> py_contains sub cs)"

text \<open>\<open>s.replace(old, new, 1)\<close>: the leftmost occurrence replaced.\<close>

fun py_replace1 :: "string \<Rightarrow> string \<Rightarrow> string \<Rightarrow> string" where
  "py_replace1 old new [] = (if old = [] then new else [])"
| "py_replace1 old new (c # cs) =
     (if prefix old (c # cs) then new @ drop (length old) (c # cs)
      else c # py_replace1 old new cs)"

text \<open>\<open>s.lower()\<close> on code points below 256.\<close>

definition py_lower_char :: "char \<Rightarrow> char" where
  "py_lower_char c =
     (let n = (of_char c :: nat)
      in if (65 \<le> n \<and> n \<le> 90) \<or> (192 \<le> n \<and> n \<le> 214) \<or> (216 \<le> n \<and> n \<le> 222)
         then char_of (n + 32) else c)"

definition py_lower :: "string \<Rightarrow> string" where
  "py_lower s = map py_lower_char s"

section \<open>Field-path normalization\<close>

subsection \<open>\<open>RADFieldAnalyzer.normalize_field_path\<close>\<close>

definition normalizations :: "(string \<times> string) list" where
  "normalizations =
    [(''entitlementData.current'', ''entitlements.current''),
     (''entitlementData.used'', ''entitlements.used''),
     (''entitlementData.transitionable'', ''entitlements.transitionable''),
     (''vnextAccount.billing'', ''billing''),
     (''vnextAccount.account'', ''account''),
     (''features.websiteType'', ''websiteType''),
     (''gem.subscriberCount'', ''email.subscriberCount''),
     (''gem.hasSent'', ''email.hasSent''),
     (''gem.lastFbPostDate'', ''social.lastFacebookPost''),
     (''gem.lastIgPostDate'', ''social.lastInstagramPost''),
     (''ols.products.count'', ''commerce.productCount''),
     (''ola.service.total'', ''appointments.serviceCount''),
     (''ola.account.status'', ''appointments.status'')]"

text \<open>
  \<open>defaultdict(set)\<close> as an association list in insertion order; \<open>d[k].add(v)\<close> creates
  the entry when the key is new.
\<close>

fun dd_add :: "'k \<Rightarrow> 'v \<Rightarrow> ('k \<times> 'v set) list \<Rightarrow> ('k \<times> 'v set) list" where
  "dd_add k v [] = [(k, {v})]"
| "dd_add k v ((k', vs) # rest) =
     (if k = k' then (k', insert v vs) # rest else (k', vs) # dd_add k v rest)"

text \<open>
  The loop over \<open>normalizations.items()\<close>: the first key that is a prefix of the cleaned
  field decides. The result is the normalized path, and the pair \<open>(new, field)\<close> recorded in
  \<open>self.field_variations\<close> when a key matched.
\<close>

fun normalize_loop :: "(string \<times> string) list \<Rightarrow> string \<Rightarrow> string \<times> (string \<times> string) option" where
  "normalize_loop [] field = (field, None)"
| "normalize_loop ((old, new) # rest) field =
     (if py_startswith field old then (py_replace1 old new field, Some (new, field))
      else normalize_loop rest field)"

definition clean_field :: "string \<Rightarrow> string" where
  "clean_field field = py_strip_chars quote_chars (py_strip field)"

definition normalize_field_path :: "string \<Rightarrow> string" where
  "normalize_field_path field = fst (normalize_loop normalizations (clean_field field))"

text \<open>The effect of \<open>normalize_field_path\<close> on \<open>self.field_variations\<close>.\<close>

definition normalize_field_path_variations ::
  "(string \<times> string set) list \<Rightarrow> string \<Rightarrow> (string \<times> string set) list" where
  "normalize_field_path_variations fv field =
     (case snd (normalize_loop normalizations (clean_field field)) of
        None \<Rightarrow> fv
      | Some (new, f) \<Rightarrow> dd_add new f fv)"

subsection \<open>\<open>UniqueDataAnalyzer.normalize_field_deeply\<close>\<close>

definition deep_mappings :: "(string \<times> string) list" where
  "deep_mappings =
    [(''accountId'', ''account.id''),
     (''wsbvnext.accountId'', ''account.id''),
     (''mktgasst.accountId'', ''account.id''),
     (''vnextAccount.shopperId'', ''account.shopperId''),
     (''id'', ''entity.id''),
     (''wsbvnext.id'', ''entity.id''),
     (''mktgasst.id'', ''entity.id''),
     (''type'', ''entity.type''),
     (''wsbvnext.type'', ''entity.type''),
     (''mktgasst.type'', ''entity.type''),
     (''vnextAccount.billing.commitment'', ''billing.commitment''),
     (''vnextAccount.billing.termType'', ''billing.termType''),
     (''vnextAccount.billing.autoRenew'', ''billing.autoRenew''),
     (''vnextAccount.account.paymentStatus'', ''billing.paymentStatus''),
     (''account.paymentStatus'', ''billing.paymentStatus''),
     (''features.websiteType'', ''website.type''),
     (''features.published'', ''website.isPublished''),
     (''features.widgets'', ''website.widgets''),
     (''features.planType'', ''account.planType''),
     (''features.userAddedLogo'', ''website.hasCustomLogo''),
     (''features.externalDomainName'', ''website.customDomain''),
     (''entitlementData'', ''entitlements.all''),
     (''entitlementData.current'', ''entitlements.current''),
     (''entitlementData.current.commerce'', ''entitlements.commerce''),
     (''entitlementData.current.blog'', ''entitlements.blog''),
     (''entitlementData.current.appointments'', ''entitlements.appointments''),
     (''entitlementData.current.conversations'', ''entitlements.conversations''),
     (''entitlementData.current['' @ [CHR 0x22] @ ''conversations.lite'' @ [CHR 0x22] @ '']'',
        ''entitlements.conversationsLite''),
     (''entitlementData.transitionable'', ''entitlements.available''),
     (''entitlementData.used'', ''entitlements.used''),
     (''gem.subscriberCount'', ''email.subscriberCount''),
     (''gem.hasSent'', ''email.hasSentCampaign''),
     (''gem.lastFbPostDate'', ''social.lastFacebookPost''),
     (''gem.lastIgPostDate'', ''social.lastInstagramPost''),
     (''features.facebook.pageId'', ''social.facebookPageId''),
     (''features.facebook.isConnected'', ''social.facebookConnected''),
     (''features.instagram.isConnected'', ''social.instagramConnected''),
     (''features.gmb.hasGMBPublished'', ''social.googleBusinessPublished''),
     (''features.gmb.hasGMBStarted'', ''social.googleBusinessStarted''),
     (''features.gmb.hasGMBLocation'', ''social.googleBusinessLocation''),
     (''features.yelp.hasYelpPublished'', ''social.yelpPublished''),
     (''features.yelp.hasCompletedYelpFlow'', ''social.yelpCompleted''),
     (''ols.products.count'', ''commerce.productCount''),
     (''ols.setup_status'', ''commerce.setupStatus''),
     (''ols.store_status'', ''commerce.storeStatus''),
     (''ols.marketplace_data'', ''commerce.marketplaces''),
     (''ols.featured_products_with_images'', ''commerce.featuredProducts''),
     (''ols.payment_methods.available'', ''commerce.paymentMethods''),
     (''ols.features_enabled.product_reviews'', ''commerce.productReviewsEnabled''),
     (''ols.features_enabled.abandoned_cart'', ''commerce.abandonedCartEnabled''),
     (''ola.service.total'', ''appointments.serviceCount''),
     (''ola.account.status'', ''appointments.accountStatus''),
     (''ola.online_payment.status'', ''appointments.paymentStatus''),
     (''ola.calendar_sync.status'', ''appointments.calendarSyncStatus''),
     (''ola.facebook_booking.status'', ''appointments.facebookBookingStatus''),
     (''ola.notifications.c1_sms'', ''appointments.smsNotifications''),
     (''ola.account.has_business_address'', ''appointments.hasBusinessAddress''),
     (''customerIntentions'', ''customer.intentions''),
     (''wsbvnext.customerIntentions'', ''customer.intentions''),
     (''blog'', ''content.blogPosts''),
     (''contacts'', ''customer.contacts''),
     (''domainName'', ''website.domainName''),
     (''links.addSubscribers'', ''links.emailSubscribers''),
     (''links.composeCampaign'', ''links.emailCampaign''),
     (''links.blog'', ''links.blog''),
     (''links.editorDirect'', ''links.websiteEditor''),
     (''links.preview'', ''links.websitePreview''),
     (''request.query.ventureId'', ''context.ventureId''),
     (''request.query.appLocation'', ''context.appLocation''),
     (''vnextAccount.ventureId'', ''context.ventureId'')]"

text \<open>The loop over \<open>deep_mappings.items()\<close>: the first key equal to the field decides.\<close>

fun deep_lookup :: "(string \<times> string) list \<Rightarrow> string \<Rightarrow> string option" where
  "deep_lookup [] field = None"
| "deep_lookup ((original, normalized) # rest) field =
     (if field = original then Some normalized else deep_lookup rest field)"

definition normalize_field_deeply :: "string \<Rightarrow> string" where
  "normalize_field_deeply field0 =
     (let field = clean_field field0
      in case deep_lookup deep_mappings field of
           Some normalized \<Rightarrow> normalized
         | None \<Rightarrow>
             if py_startswith field ''features.'' then ''website.'' @ drop 9 field
             else if py_startswith field ''vnextAccount.'' then drop 13 field
             else if py_startswith field ''wsbvnext.'' then drop 9 field
             else if py_startswith field ''mktgasst.'' then drop 9 field
             else field)"

section \<open>\<open>extract_pure_graphql\<close>\<close>

text \<open>
  The argument is \<open>None\<close> or a string. \<open>not query_string\<close> holds for \<open>None\<close> and for the
  empty string.
\<close>

definition extract_pure_graphql :: "string option \<Rightarrow> string option" where
  "extract_pure_graphql query_string =
     (case query_string of
        None \<Rightarrow> None
      | Some s \<Rightarrow>
          if s = [] then None
          else Some (py_strip (py_strip_chars [CHR 0x22, CHR 0x27] (py_strip s))))"


section \<open>Category bucketing\<close>

text \<open>\<open>any(x in field for x in terms)\<close>.\<close>

definition any_in :: "string list \<Rightarrow> string \<Rightarrow> bool" where
  "any_in terms field = list_ex (\<lambda>x. py_contains x field) terms"

text \<open>The bucketing chain inside the loop of \<open>create_visual_summary\<close>.\<close>

definition create_visual_summary_category :: "string \<Rightarrow> string" where
  "create_visual_summary_category field =
     (if py_contains ''account'' (py_lower field) \<or> field \<in> set [''id'', ''type'']
        then ''Core Identity''
      else if any_in [''billing'', ''payment'', ''commitment'', ''autoRenew''] field
        then ''Billing & Payments''
      else if any_in [''entitlement'', ''current.''] field
        then ''Feature Entitlements''
      else if any_in [''website'', ''published'', ''widget'', ''domain''] field
        then ''Website Settings''
      else if any_in [''facebook'', ''instagram'', ''social'', ''gem'', ''email''] field
        then ''Marketing & Social''
      else if any_in [''product'', ''commerce'', ''ols'', ''marketplace''] field
        then ''E-commerce''
      else if any_in [''appointment'', ''ola'', ''service'', ''calendar''] field
        then ''Appointments''
      else if any_in [''customer'', ''contact'', ''intention''] field
        then ''Customer Data''
      else if py_startswith field ''links.''
        then ''Navigation Links''
      else ''Other Data'')"

text \<open>\<open>DataDictionaryGenerator._categorize_field\<close>.\<close>

definition categorize_field :: "string \<Rightarrow> string" where
  "categorize_field field =
     (let field_lower = py_lower field
      in if any_in [''account'', ''shopper'', ''id''] field_lower
           then ''Identity & Authentication''
         else if any_in [''billing'', ''payment'', ''commitment'', ''autorenew''] field_lower
           then ''Billing & Payments''
         else if any_in [''entitlement'', ''current'', ''transitionable''] field_lower
           then ''Entitlements & Permissions''
         else if any_in [''feature'', ''widget'', ''published''] field_lower
           then ''Features & Configuration''
         else if any_in [''facebook'', ''instagram'', ''social'', ''gem''] field_lower
           then ''Social Media & Marketing''
         else if any_in [''product'', ''commerce'', ''ols'', ''marketplace''] field_lower
           then ''Commerce & Products''
         else if any_in [''appointment'', ''ola'', ''service'', ''calendar''] field_lower
           then ''Appointments & Services''
         else if any_in [''type'', ''status''] field_lower
           then ''Status & Types''
         else ''Other'')"

text \<open>
  The bucketing the spec describes: a fixed list of tests with their categories, tried in
  order; the first test that holds gives the category, and a default applies when none does.
\<close>

definition first_match :: "((string \<Rightarrow> bool) \<times> string) list \<Rightarrow> string \<Rightarrow> string \<Rightarrow> string" where
  "first_match table dflt field =
     (case find (\<lambda>(test, category). test field) table of
        Some (test, category) \<Rightarrow> category
      | None \<Rightarrow> dflt)"

definition keyword_test :: "string list \<Rightarrow> string \<Rightarrow> bool" where
  "keyword_test keywords field = any_in keywords field"

definition summary_table :: "((string \<Rightarrow> bool) \<times> string) list" where
  "summary_table =
    [(\<lambda>f. py_contains ''account'' (py_lower f) \<or> f = ''id'' \<or> f = ''type'', ''Core Identity''),
     (keyword_test [''billing'', ''payment'', ''commitment'', ''autoRenew''], ''Billing & Payments''),
     (keyword_test [''entitlement'', ''current.''], ''Feature Entitlements''),
     (keyword_test [''website'', ''published'', ''widget'', ''domain''], ''Website Settings''),
     (keyword_test [''facebook'', ''instagram'', ''social'', ''gem'', ''email''], ''Marketing & Social''),
     (keyword_test [''product'', ''commerce'', ''ols'', ''marketplace''], ''E-commerce''),
     (keyword_test [''appointment'', ''ola'', ''service'', ''calendar''], ''Appointments''),
     (keyword_test [''customer'', ''contact'', ''intention''], ''Customer Data''),
     (prefix ''links.'', ''Navigation Links'')]"

definition dictionary_table :: "((string \<Rightarrow> bool) \<times> string) list" where
  "dictionary_table =
    map (\<lambda>(keywords, category). (\<lambda>f. keyword_test keywords (py_lower f), category))
     [([''account'', ''shopper'', ''id''], ''Identity & Authentication''),
      ([''billing'', ''payment'', ''commitment'', ''autorenew''], ''Billing & Payments''),
      ([''entitlement'', ''current'', ''transitionable''], ''Entitlements & Permissions''),
      ([''feature'', ''widget'', ''published''], ''Features & Configuration''),
      ([''facebook'', ''instagram'', ''social'', ''gem''], ''Social Media & Marketing''),
      ([''product'', ''commerce'', ''ols'', ''marketplace''], ''Commerce & Products''),
      ([''appointment'', ''ola'', ''service'', ''calendar''], ''Appointments & Services''),
      ([''type'', ''status''], ''Status & Types'')]"

section \<open>Analysis records and aggregate reports\<close>

record field_access =
  fa_field :: string
  fa_normalized :: string
  fa_entity_type :: string
  fa_access_method :: string

record join_info =
  uses_join :: bool
  join_conditions :: "(string \<times> string) list"
  joined_entities :: "string list"

record return_pattern =
  rp_type :: string
  rp_dynamic :: bool

record complexity =
  score :: nat
  level :: string
  factors :: "string list"

text \<open>The dictionary \<open>analyze_synthesizer\<close> builds for one synthesizer.\<close>

record analysis =
  an_name :: string
  an_entity_types :: "string list"
  an_all_fields :: "string list"
  an_field_accesses :: "field_access list"
  an_join_info :: join_info
  an_return_pattern :: return_pattern
  an_code_length :: nat
  an_conditional_logic :: bool
  an_uses_spread :: bool
  an_uses_optional_chaining :: bool
  an_complexity :: complexity

text \<open>The attributes of a \<open>RADFieldAnalyzer\<close>.\<close>

record analyzer =
  results :: "analysis list"
  all_fields :: "string set"
  entity_types :: "string set"
  field_variations :: "(string \<times> string set) list"
  field_by_entity :: "(string \<times> string set) list"

text \<open>\<open>RADFieldAnalyzer.__init__\<close>.\<close>

definition init_analyzer :: analyzer where
  "init_analyzer =
     \<lparr>results = [], all_fields = {}, entity_types = {}, field_variations = [],
      field_by_entity = []\<rparr>"

text \<open>
  A \<open>Counter\<close> is an association list in insertion order; \<open>c[k] += 1\<close> creates the entry
  when the key is new.
\<close>

fun counter_inc :: "'k \<Rightarrow> ('k \<times> nat) list \<Rightarrow> ('k \<times> nat) list" where
  "counter_inc k [] = [(k, 1)]"
| "counter_inc k ((k', n) # rest) =
     (if k = k' then (k', Suc n) # rest else (k', n) # counter_inc k rest)"

text \<open>\<open>entity_field_map[entity][field] += 1\<close> on a \<open>defaultdict(Counter)\<close>.\<close>

fun nested_inc :: "'k \<Rightarrow> 'j \<Rightarrow> ('k \<times> ('j \<times> nat) list) list \<Rightarrow> ('k \<times> ('j \<times> nat) list) list" where
  "nested_inc k j [] = [(k, [(j, 1)])]"
| "nested_inc k j ((k', c) # rest) =
     (if k = k' then (k', counter_inc j c) # rest else (k', c) # nested_inc k j rest)"

text \<open>
  \<open>sorted(xs, key=key, reverse=True)\<close>: descending and stable (equal keys keep their
  order), which is a stable ascending sort of the reversed list, reversed.
\<close>

definition py_sorted_desc :: "('a \<Rightarrow> nat) \<Rightarrow> 'a list \<Rightarrow> 'a list" where
  "py_sorted_desc key xs = rev (sort_key key (rev xs))"

text \<open>\<open>Counter.most_common(n)\<close>.\<close>

definition most_common :: "nat \<Rightarrow> ('k \<times> nat) list \<Rightarrow> ('k \<times> nat) list" where
  "most_common n c = take n (py_sorted_desc snd c)"

text \<open>\<open>patterns[key].append(item)\<close> on a dictionary whose keys are all present.\<close>

fun bucket_append :: "string \<Rightarrow> 'v \<Rightarrow> (string \<times> 'v list) list \<Rightarrow> (string \<times> 'v list) list" where
  "bucket_append k v [] = []"
| "bucket_append k v ((k', vs) # rest) =
     (if k = k' then (k', vs @ [v]) # rest else (k', vs) # bucket_append k v rest)"

text \<open>The keyword chain of \<open>_identify_common_patterns\<close>: the bucket a field goes to, if any.\<close>

definition common_pattern_bucket :: "string \<Rightarrow> string option" where
  "common_pattern_bucket field =
     (if py_contains ''billing'' field \<or> py_contains ''payment'' field then Some ''billing''
      else if py_contains ''entitlement'' field \<or> py_contains ''current'' field
        then Some ''entitlements''
      else if py_contains ''feature'' field \<or> py_contains ''widget'' field then Some ''features''
      else if py_contains ''facebook'' field \<or> py_contains ''instagram'' field \<or>
              py_contains ''social'' field
        then Some ''social_media''
      else if py_contains ''product'' field \<or> py_contains ''commerce'' field \<or>
              py_contains ''ols'' field
        then Some ''commerce''
      else if py_contains ''appointment'' field \<or> py_contains ''ola'' field \<or>
              py_contains ''service'' field
        then Some ''appointments''
      else if py_contains ''account'' field \<or> py_contains ''shopper'' field
        then Some ''authentication''
      else None)"

definition initial_patterns :: "(string \<times> (string \<times> nat) list) list" where
  "initial_patterns =
     [(''authentication'', []), (''billing'', []), (''features'', []), (''entitlements'', []),
      (''social_media'', []), (''commerce'', []), (''appointments'', []), (''content'', [])]"

text \<open>\<open>RADFieldAnalyzer._identify_common_patterns\<close>.\<close>

definition identify_common_patterns ::
  "(string \<times> nat) list \<Rightarrow> (string \<times> (string \<times> nat) list) list" where
  "identify_common_patterns field_counter =
     (let patterns =
            fold (\<lambda>(field, count) patterns.
                    case common_pattern_bucket field of
                      Some key \<Rightarrow> bucket_append key (field, count) patterns
                    | None \<Rightarrow> patterns)
                 field_counter initial_patterns
      in map (\<lambda>(key, entries). (key, take 5 (py_sorted_desc snd entries))) patterns)"

text \<open>\<open>str(n)\<close> for a count.\<close>

function str_of_nat :: "nat \<Rightarrow> string" where
  "str_of_nat n =
     (if n < 10 then [''0123456789'' ! n]
      else str_of_nat (n div 10) @ [''0123456789'' ! (n mod 10)])"
  by pat_completeness auto
termination
  by (relation "measure id") auto

declare str_of_nat.simps [simp del]

text \<open>
  \<open>str.title()\<close> on ASCII text (the category keys are ASCII): a letter is upper-cased when
  the character before it is no letter, and lower-cased otherwise.
\<close>

definition ascii_letter :: "char \<Rightarrow> bool" where
  "ascii_letter c =
     (let n = (of_char c :: nat) in (65 \<le> n \<and> n \<le> 90) \<or> (97 \<le> n \<and> n \<le> 122))"

definition ascii_upper :: "char \<Rightarrow> char" where
  "ascii_upper c =
     (let n = (of_char c :: nat) in if 97 \<le> n \<and> n \<le> 122 then char_of (n - 32) else c)"

definition ascii_lower :: "char \<Rightarrow> char" where
  "ascii_lower c =
     (let n = (of_char c :: nat) in if 65 \<le> n \<and> n \<le> 90 then char_of (n + 32) else c)"

fun title_from :: "bool \<Rightarrow> string \<Rightarrow> string" where
  "title_from prev [] = []"
| "title_from prev (c # cs) =
     (if ascii_letter c then (if prev then ascii_lower c else ascii_upper c) # title_from True cs
      else c # title_from False cs)"

definition py_title :: "string \<Rightarrow> string" where
  "py_title s = title_from False s"

text \<open>
  The section "Common Data Access Patterns" of \<open>export_report\<close> in markdown format: one
  block per category whose list is not empty.
\<close>

definition render_pattern_block :: "string \<times> (string \<times> nat) list \<Rightarrow> string" where
  "render_pattern_block block =
     (case block of (category, entries) \<Rightarrow>
        ''\<newline>### '' @ py_title category @ ''\<newline>'' @
        concat (map (\<lambda>(field, count).
                       ''- '' @ [CHR 0x60] @ field @ [CHR 0x60] @ '': '' @ str_of_nat count @
                       '' times\<newline>'') entries))"

definition render_common_patterns :: "(string \<times> (string \<times> nat) list) list \<Rightarrow> string" where
  "render_common_patterns common_patterns =
     ''## Common Data Access Patterns\<newline>'' @
     concat (map render_pattern_block (filter (\<lambda>(category, entries). entries \<noteq> []) common_patterns))"

section \<open>Aggregate report generators\<close>

subsection \<open>\<open>RADFieldAnalyzer.generate_comprehensive_report\<close>\<close>

record report_summary =
  total_synthesizers :: nat
  total_unique_fields :: nat
  total_entity_types :: nat
  summary_entity_types :: "string list"
  complexity_distribution :: "(string \<times> nat) list"
  return_patterns :: "(string \<times> nat) list"

record report_field_analysis =
  most_used_fields :: "(string \<times> nat) list"
  fields_by_entity :: "(string \<times> (string \<times> nat) list) list"
  report_field_variations :: "(string \<times> string set) list"
  access_methods :: "(string \<times> nat) list"
  common_patterns :: "(string \<times> (string \<times> nat) list) list"

record entity_relationship =
  rel_synthesizer :: string
  rel_relationship :: "string \<times> string"
  rel_entities :: "string list"

record report =
  summary :: report_summary
  field_analysis :: report_field_analysis
  entity_relationships :: "entity_relationship list"
  synthesizer_details :: "analysis list"

text \<open>\<open>_get_complexity_distribution\<close> and \<open>_get_return_pattern_distribution\<close>.\<close>

definition get_complexity_distribution :: "analyzer \<Rightarrow> (string \<times> nat) list" where
  "get_complexity_distribution self =
     fold (\<lambda>r. counter_inc (level (an_complexity r))) (results self) []"

definition get_return_pattern_distribution :: "analyzer \<Rightarrow> (string \<times> nat) list" where
  "get_return_pattern_distribution self =
     fold (\<lambda>r. counter_inc (rp_type (an_return_pattern r))) (results self) []"

text \<open>\<open>_analyze_entity_relationships\<close>.\<close>

definition analyze_entity_relationships :: "analyzer \<Rightarrow> entity_relationship list" where
  "analyze_entity_relationships self =
     concat (map (\<lambda>result.
        if uses_join (an_join_info result)
        then map (\<lambda>condition.
                    \<lparr>rel_synthesizer = an_name result, rel_relationship = condition,
                     rel_entities = joined_entities (an_join_info result)\<rparr>)
                 (join_conditions (an_join_info result))
        else []) (results self))"

definition generate_comprehensive_report :: "analyzer \<Rightarrow> report" where
  "generate_comprehensive_report self =
     (let accesses = concat (map an_field_accesses (results self));
          field_counter = fold (\<lambda>fa. counter_inc (fa_normalized fa)) accesses [];
          entity_field_map =
            fold (\<lambda>fa. nested_inc (fa_entity_type fa) (fa_normalized fa)) accesses [];
          access_method_stats = fold (\<lambda>fa. counter_inc (fa_access_method fa)) accesses [];
          patterns = identify_common_patterns field_counter
      in \<lparr>summary =
            \<lparr>total_synthesizers = length (results self),
             total_unique_fields = card (all_fields self),
             total_entity_types = card (entity_types self),
             summary_entity_types = sorted_list_of_set (entity_types self),
             complexity_distribution = get_complexity_distribution self,
             return_patterns = get_return_pattern_distribution self\<rparr>,
          field_analysis =
            \<lparr>most_used_fields = most_common 20 field_counter,
             fields_by_entity = map (\<lambda>(k, v). (k, most_common 10 v)) entity_field_map,
             report_field_variations = field_variations self,
             access_methods = access_method_stats,
             common_patterns = patterns\<rparr>,
          entity_relationships = analyze_entity_relationships self,
          synthesizer_details = results self\<rparr>)"

subsection \<open>\<open>UniqueDataAnalyzer.generate_unique_data_report\<close>\<close>

record field_info =
  raw_variations :: "string set"
  synthesizers :: "string set"
  entity_sources :: "string set"
  access_patterns :: "string set"
  category :: string
  subcategory :: string
  data_type :: string
  description :: string

text \<open>\<open>categories[info['category']].append((field, info))\<close> on a \<open>defaultdict(list)\<close>.\<close>

fun group_append :: "'k \<Rightarrow> 'v \<Rightarrow> ('k \<times> 'v list) list \<Rightarrow> ('k \<times> 'v list) list" where
  "group_append k v [] = [(k, [v])]"
| "group_append k v ((k', vs) # rest) =
     (if k = k' then (k', vs @ [v]) # rest else (k', vs) # group_append k v rest)"

definition bt :: string where
  "bt = [CHR 0x60]"

definition render_top_row :: "string \<times> field_info \<Rightarrow> string" where
  "render_top_row row =
     (case row of (field, info) \<Rightarrow>
        ''| '' @ bt @ field @ bt @ '' | '' @ str_of_nat (card (synthesizers info)) @ '' RADs | '' @
        category info @ '' | '' @ data_type info @ '' | '' @ description info @ '' |\<newline>'')"

definition render_field_block :: "string \<times> field_info \<Rightarrow> string" where
  "render_field_block row =
     (case row of (field, info) \<Rightarrow>
        (let synth_count = card (synthesizers info);
             var_count = card (raw_variations info)
         in ''### '' @ bt @ field @ bt @ ''\<newline>'' @
            ''- **Description:** '' @ description info @ ''\<newline>'' @
            ''- **Data Type:** '' @ data_type info @ ''\<newline>'' @
            ''- **Used by:** '' @ str_of_nat synth_count @ '' synthesizers\<newline>'' @
            (if var_count > 1
             then ''- **Access Variations:** '' @ str_of_nat var_count @ '' different ways\<newline>'' @
                  (if var_count \<le> 5
                   then concat (map (\<lambda>var. ''  - '' @ bt @ var @ bt @ ''\<newline>'')
                                    (sorted_list_of_set (raw_variations info)))
                   else [])
             else []) @
            (if synth_count \<le> 5
             then ''- **Used in:**\<newline>'' @
                  concat (map (\<lambda>synth. ''  - '' @ synth @ ''\<newline>'')
                              (sorted_list_of_set (synthesizers info)))
             else []) @
            ''\<newline>''))"

definition render_category_block :: "string \<times> (string \<times> field_info) list \<Rightarrow> string" where
  "render_category_block block =
     (case block of (cat, entries) \<Rightarrow>
        ''## '' @ cat @ ''\<newline>\<newline>'' @
        ''**'' @ str_of_nat (length entries) @ '' unique data fields** used by synthesizers:\<newline>\<newline>'' @
        concat (map render_field_block
                  (py_sorted_desc (\<lambda>x. card (synthesizers (snd x))) entries)))"

definition generate_unique_data_report :: "(string \<times> field_info) list \<Rightarrow> string" where
  "generate_unique_data_report self_all_fields =
     (let total_unique = length self_all_fields;
          all_synthesizers = \<Union> (set (map (\<lambda>f. synthesizers (snd f)) self_all_fields));
          sorted_fields = py_sorted_desc (\<lambda>x. card (synthesizers (snd x))) self_all_fields;
          categories = fold (\<lambda>(field, info). group_append (category info) (field, info))
                            self_all_fields [];
          category_usage = (\<lambda>entries. sum_list (map (\<lambda>x. card (synthesizers (snd x))) entries));
          sorted_categories = py_sorted_desc (\<lambda>x. category_usage (snd x)) categories
      in ''# Complete Unique Data Fields Used by RAD Synthesizers\<newline>\<newline>'' @
         ''## Summary\<newline>\<newline>'' @
         ''- **Total Unique Data Fields:** '' @ str_of_nat total_unique @ ''\<newline>'' @
         ''- **Total Synthesizers:** '' @ str_of_nat (card all_synthesizers) @ ''\<newline>\<newline>'' @
         ''## Top 20 Most Commonly Used Data\<newline>\<newline>'' @
         ''| Data Field | Used By | Category | Type | Description |\<newline>'' @
         ''|------------|---------|----------|------|-------------|\<newline>'' @
         concat (map render_top_row (take 20 sorted_fields)) @
         ''\<newline>'' @
         concat (map render_category_block sorted_categories))"

subsection \<open>\<open>create_visual_summary\<close>\<close>

datatype py_error = ValueError | ZeroDivisionError

text \<open>\<open>max(xs)\<close> raises \<open>ValueError\<close> on an empty sequence.\<close>

definition py_max :: "nat list \<Rightarrow> py_error + nat" where
  "py_max xs = (case xs of [] \<Rightarrow> Inl ValueError | x # rest \<Rightarrow> Inr (fold max rest x))"

text \<open>
  A row of the bar chart. Its percentage \<open>(count / synthesizer_count) * 100\<close> and its bar
  length \<open>int((count / max_count) * 40)\<close> are float computations; the row keeps their integer
  operands. A division by zero raises.
\<close>

record bar_row =
  bar_field :: string
  bar_count :: nat
  bar_synthesizer_count :: nat
  bar_max_count :: nat

fun chart_rows :: "nat \<Rightarrow> nat \<Rightarrow> (string \<times> nat) list \<Rightarrow> py_error + bar_row list" where
  "chart_rows synthesizer_count max_count [] = Inr []"
| "chart_rows synthesizer_count max_count ((field, count) # rest) =
     (if synthesizer_count = 0 then Inl ZeroDivisionError
      else if max_count = 0 then Inl ZeroDivisionError
      else case chart_rows synthesizer_count max_count rest of
             Inl e \<Rightarrow> Inl e
           | Inr rows \<Rightarrow>
               Inr (\<lparr>bar_field = field, bar_count = count,
                     bar_synthesizer_count = synthesizer_count, bar_max_count = max_count\<rparr> # rows))"

record visual_summary_head =
  head_synthesizer_count :: nat
  head_unique_fields :: nat
  head_field_categories :: "(string \<times> string set) list"
  head_field_entity_map :: "(string \<times> string set) list"
  head_chart :: "bar_row list"

text \<open>
  \<open>create_visual_summary\<close> on the loaded report, up to the end of the bar chart (lines 16 to
  65): the aggregation loop, the header line with the two counts, \<open>max_count\<close> and the chart
  rows. The sections after the chart are rendered from the same aggregates and are reached
  only when this part has not raised.
\<close>

definition create_visual_summary :: "report \<Rightarrow> py_error + visual_summary_head" where
  "create_visual_summary rep =
     (let accesses = concat (map an_field_accesses (synthesizer_details rep));
          field_usage = fold (\<lambda>fa. counter_inc (fa_normalized fa)) accesses [];
          field_entity_map =
            fold (\<lambda>fa. dd_add (fa_normalized fa) (fa_entity_type fa)) accesses [];
          field_categories =
            fold (\<lambda>fa. dd_add (create_visual_summary_category (fa_normalized fa))
                               (fa_normalized fa)) accesses [];
          synthesizer_count = length (synthesizer_details rep)
      in case py_max (map snd field_usage) of
           Inl e \<Rightarrow> Inl e
         | Inr max_count \<Rightarrow>
             (case chart_rows synthesizer_count max_count (most_common 20 field_usage) of
                Inl e \<Rightarrow> Inl e
              | Inr rows \<Rightarrow>
                  Inr \<lparr>head_synthesizer_count = synthesizer_count,
                       head_unique_fields = length field_usage,
                       head_field_categories = field_categories,
                       head_field_entity_map = field_entity_map,
                       head_chart = rows\<rparr>))"

text \<open>The report of an analyzer that has analyzed no section.\<close>

definition empty_report :: report where
  "empty_report =
     \<lparr>summary =
        \<lparr>total_synthesizers = 0, total_unique_fields = 0, total_entity_types = 0,
         summary_entity_types = [], complexity_distribution = [], return_patterns = []\<rparr>,
      field_analysis =
        \<lparr>most_used_fields = [], fields_by_entity = [], report_field_variations = [],
         access_methods = [],
         common_patterns =
           [(''authentication'', []), (''billing'', []), (''features'', []),
            (''entitlements'', []), (''social_media'', []), (''commerce'', []),
            (''appointments'', []), (''content'', [])]\<rparr>,
      entity_relationships = [], synthesizer_details = []\<rparr>"

section \<open>Section splitting: \<open>parse_rad_file\<close>\<close>

text \<open>
  \<open>s.split(sep)\<close> for a non-empty separator: the pieces between the occurrences of \<open>sep\<close>,
  found from left to right. (Python raises on an empty separator; both call sites pass a
  literal.)
\<close>

function split_from :: "string \<Rightarrow> string \<Rightarrow> string \<Rightarrow> string list" where
  "split_from sep acc [] = [rev acc]"
| "split_from sep acc (c # cs) =
     (if sep \<noteq> [] \<and> prefix sep (c # cs)
      then rev acc # split_from sep [] (drop (length sep) (c # cs))
      else split_from sep (c # acc) cs)"
  by pat_completeness auto
termination
  by (relation "measure (\<lambda>(sep, acc, s). length s)") auto

definition py_split :: "string \<Rightarrow> string \<Rightarrow> string list" where
  "py_split sep s = split_from sep [] s"

text \<open>\<open>s.find(sub, start)\<close>, with \<open>None\<close> for \<open>-1\<close>.\<close>

fun first_index :: "string \<Rightarrow> string \<Rightarrow> nat option" where
  "first_index sub [] = (if sub = [] then Some 0 else None)"
| "first_index sub (c # cs) =
     (if prefix sub (c # cs) then Some 0 else map_option Suc (first_index sub cs))"

definition py_find :: "string \<Rightarrow> string \<Rightarrow> nat \<Rightarrow> nat option" where
  "py_find sub s start =
     (if start > length s then None
      else map_option (\<lambda>k. start + k) (first_index sub (drop start s)))"

definition section_marker :: string where
  "section_marker = ''## ''"

definition fence :: string where
  "fence = [CHR 0x60, CHR 0x60, CHR 0x60]"

definition fence_javascript :: string where
  "fence_javascript = fence @ ''javascript''"

definition newline :: string where
  "newline = [CHR 0x0A]"

text \<open>
  The body of the loop of \<open>parse_rad_file\<close> for one section: the pair it appends, if any.
  \<open>code_start + 1\<close> is \<open>0\<close> when \<open>find\<close> returned \<open>-1\<close>.
\<close>

definition parse_section :: "string \<Rightarrow> (string \<times> string) option" where
  "parse_section section =
     (let lines = py_split newline (py_strip section)
      in if lines = [] then None
         else
           (let name = py_strip (hd lines);
                code_start = py_find fence_javascript section 0;
                code_end = py_find fence section (case code_start of None \<Rightarrow> 0 | Some i \<Rightarrow> i + 1)
            in case (code_start, code_end) of
                 (Some cs, Some ce) \<Rightarrow>
                   Some (name, py_strip (take (ce - (cs + 13)) (drop (cs + 13) section)))
               | _ \<Rightarrow> None))"

text \<open>\<open>parse_rad_file\<close> on the content of the file.\<close>

definition parse_rad_file :: "string \<Rightarrow> (string \<times> string) list" where
  "parse_rad_file content = List.map_filter parse_section (tl (py_split section_marker content))"

text \<open>The number of positions of \<open>s\<close> at which \<open>sep\<close> occurs.\<close>

fun count_occurrences :: "string \<Rightarrow> string \<Rightarrow> nat" where
  "count_occurrences sep [] = 0"
| "count_occurrences sep (c # cs) =
     (if prefix sep (c # cs) then 1 else 0) + count_occurrences sep cs"

text \<open>A section holds a \<open>javascript\<close> fence that a later fence closes.\<close>

definition fenced :: "string \<Rightarrow> bool" where
  "fenced section =
     (\<exists>pre mid post. section = pre @ fence_javascript @ mid @ fence @ post)"

text \<open>The header line of a section: its text up to the first line break.\<close>

definition header_line :: "string \<Rightarrow> string" where
  "header_line section = takeWhile (\<lambda>c. c \<noteq> CHR 0x0A) section"

section \<open>Properties of normalization\<close>

lemmas clean_defs = clean_field_def py_strip_def py_strip_chars_def py_isspace_def quote_chars_def

text \<open>The table argument of a lookup is a literal; only the field is rewritten.\<close>

lemma deep_lookup_wcong: "f = f' \<Longrightarrow> deep_lookup t f = deep_lookup t f'"
  by simp

lemma normalize_loop_wcong: "f = f' \<Longrightarrow> normalize_loop t f = normalize_loop t f'"
  by simp

lemma deep_lookup_map_of: "deep_lookup t f = map_of t f"
  by (induction t) auto

lemma py_replace1_prefix: "prefix old s \<Longrightarrow> py_replace1 old new s = new @ drop (length old) s"
  by (cases s) auto

lemma normalize_loop_find:
  "fst (normalize_loop t c) =
     (case find (\<lambda>(old, new). prefix old c) t of
        Some (old, new) \<Rightarrow> new @ drop (length old) c
      | None \<Rightarrow> c)"
  by (induction t) (auto simp: py_startswith_def py_replace1_prefix)

lemma path_keys_idem:
  "\<forall>f \<in> set (map fst normalizations).
     normalize_field_path (normalize_field_path f) = normalize_field_path f"
  unfolding normalizations_def normalize_field_path_def
  by (simp add: clean_defs py_startswith_def cong: normalize_loop_wcong)

lemma deep_keys_clean: "\<forall>k \<in> set (map fst deep_mappings). clean_field k = k"
  unfolding deep_mappings_def by (simp add: clean_defs)

lemma deep_lookup_key:
  assumes "k \<in> set (map fst t)"
  shows "\<exists>v. deep_lookup t k = Some v \<and> v \<in> set (map snd t)"
proof -
  from assms have "map_of t k \<noteq> None" by (simp add: map_of_eq_None_iff)
  then obtain v where v: "map_of t k = Some v" by auto
  then have "(k, v) \<in> set t" by (rule map_of_SomeD)
  then have "v \<in> set (map snd t)" by force
  with v show ?thesis by (simp add: deep_lookup_map_of)
qed

text \<open>Every value of the deep table is a fixed point: it is no key (or maps to itself) and
  carries none of the four prefixes.\<close>

lemma deep_values_fixed: "\<forall>v \<in> set (map snd deep_mappings). normalize_field_deeply v = v"
  unfolding deep_mappings_def normalize_field_deeply_def
  by (simp add: clean_defs py_startswith_def cong: deep_lookup_wcong)

lemma deep_keys_idem:
  assumes "f \<in> set (map fst deep_mappings)"
  shows "normalize_field_deeply (normalize_field_deeply f) = normalize_field_deeply f"
proof -
  from assms deep_keys_clean have c: "clean_field f = f" by blast
  from deep_lookup_key [OF assms] obtain v
    where v: "deep_lookup deep_mappings f = Some v" "v \<in> set (map snd deep_mappings)" by blast
  have n: "normalize_field_deeply f = v" by (simp add: normalize_field_deeply_def c v)
  have "normalize_field_deeply v = v" using v(2) deep_values_fixed by blast
  with n show ?thesis by simp
qed

lemma gem_key: "''gem.hasSent'' \<in> set (map fst normalizations)"
  by (simp add: normalizations_def)

lemma features_key: "''features.websiteType'' \<in> set (map fst deep_mappings)"
  by (simp add: deep_mappings_def)

text \<open>
  C2. For every key of the static table, normalizing twice equals normalizing once, for
  \<open>normalize_field_path\<close> (prefix table) and for \<open>normalize_field_deeply\<close> (exact-match
  table and prefix strips).
\<close>

theorem normalization_idempotent_on_table_keys:
  "(\<forall>f \<in> set (map fst normalizations).
      normalize_field_path (normalize_field_path f) = normalize_field_path f) \<and>
   (\<forall>f \<in> set (map fst deep_mappings).
      normalize_field_deeply (normalize_field_deeply f) = normalize_field_deeply f)"
  using path_keys_idem deep_keys_idem by blast

theorem normalization_idempotent_witness:
  "''gem.hasSent'' \<in> set (map fst normalizations) \<and>
   normalize_field_path (normalize_field_path ''gem.hasSent'') =
     normalize_field_path ''gem.hasSent'' \<and>
   ''features.websiteType'' \<in> set (map fst deep_mappings) \<and>
   normalize_field_deeply (normalize_field_deeply ''features.websiteType'') =
     normalize_field_deeply ''features.websiteType''"
  using normalization_idempotent_on_table_keys gem_key features_key by blast

text \<open>
  C6, as the claim states it, fails: a field with the prefix \<open>features.\<close> that is no key of
  the table does not come back with the prefix removed; the prefix is replaced by
  \<open>website.\<close>.
\<close>

lemma foo_lookup: "map_of deep_mappings ''features.foo'' = None"
  unfolding deep_mappings_def deep_lookup_map_of [symmetric]
  by (simp cong: deep_lookup_wcong)

theorem features_prefix_not_removed:
  "clean_field ''features.foo'' = ''features.foo'' \<and>
   ''features.foo'' \<notin> set (map fst deep_mappings) \<and>
   prefix ''features.'' ''features.foo'' \<and>
   normalize_field_deeply ''features.foo'' = ''website.foo'' \<and>
   normalize_field_deeply ''features.foo'' \<noteq> drop (length ''features.'') ''features.foo''"
proof -
  have c: "clean_field ''features.foo'' = ''features.foo''" by (simp add: clean_defs)
  have k: "''features.foo'' \<notin> set (map fst deep_mappings)"
    using foo_lookup by (simp add: map_of_eq_None_iff)
  have n: "normalize_field_deeply ''features.foo'' = ''website.foo''"
    by (simp add: normalize_field_deeply_def c deep_lookup_map_of foo_lookup py_startswith_def)
  show ?thesis using c k n by simp
qed

text \<open>
  C6, amended. Let \<open>c\<close> be the raw string with surrounding whitespace and then surrounding
  quote characters removed. \<open>normalize_field_deeply\<close> returns the table value when \<open>c\<close> is a
  key of the table; otherwise \<open>website.\<close> followed by the rest when \<open>c\<close> starts with
  \<open>features.\<close>; otherwise \<open>c\<close> without the prefix when it starts with \<open>vnextAccount.\<close>,
  \<open>wsbvnext.\<close> or \<open>mktgasst.\<close>; otherwise \<open>c\<close> itself. \<open>normalize_field_path\<close> replaces the
  first table key that is a prefix of \<open>c\<close> by its value and returns \<open>c\<close> when there is none.
  Both are total: no string is rejected.
\<close>

theorem normalize_field_deeply_cases:
  fixes raw :: string
  defines "c \<equiv> clean_field raw"
  shows "(map_of deep_mappings c = Some v \<longrightarrow> normalize_field_deeply raw = v) \<and>
         (map_of deep_mappings c = None \<and> c = ''features.'' @ rest \<longrightarrow>
            normalize_field_deeply raw = ''website.'' @ rest) \<and>
         (map_of deep_mappings c = None \<and>
            (c = ''vnextAccount.'' @ rest \<or> c = ''wsbvnext.'' @ rest \<or> c = ''mktgasst.'' @ rest) \<longrightarrow>
            normalize_field_deeply raw = rest) \<and>
         (map_of deep_mappings c = None \<and> \<not> prefix ''features.'' c \<and>
            \<not> prefix ''vnextAccount.'' c \<and> \<not> prefix ''wsbvnext.'' c \<and>
            \<not> prefix ''mktgasst.'' c \<longrightarrow>
            normalize_field_deeply raw = c) \<and>
         normalize_field_path raw =
           (case find (\<lambda>(old, new). prefix old c) normalizations of
              Some (old, new) \<Rightarrow> new @ drop (length old) c
            | None \<Rightarrow> c)"
  unfolding c_def normalize_field_deeply_def normalize_field_path_def normalize_loop_find
  by (auto simp: deep_lookup_map_of Let_def py_startswith_def)

lemma quoted_account_clean: "clean_field ([CHR 0x22] @ ''accountId'' @ [CHR 0x22]) = ''accountId''"
  by (simp add: clean_defs)

lemma account_lookup: "map_of deep_mappings ''accountId'' = Some ''account.id''"
  by (simp add: deep_mappings_def)

lemma bar_clean: "clean_field ''wsbvnext.bar'' = ''wsbvnext.bar''"
  by (simp add: clean_defs)

lemma bar_lookup: "map_of deep_mappings ''wsbvnext.bar'' = None"
  unfolding deep_mappings_def deep_lookup_map_of [symmetric]
  by (simp cong: deep_lookup_wcong)

lemma plain_clean: "clean_field '' plain '' = ''plain''"
  by (simp add: clean_defs)

lemma plain_lookup: "map_of deep_mappings ''plain'' = None"
  unfolding deep_mappings_def deep_lookup_map_of [symmetric]
  by (simp cong: deep_lookup_wcong)

lemma foo_clean: "clean_field ''features.foo'' = ''features.foo''"
  by (simp add: clean_defs)

theorem normalize_field_deeply_cases_witness:
  "map_of deep_mappings (clean_field ([CHR 0x22] @ ''accountId'' @ [CHR 0x22])) = Some ''account.id'' \<and>
   normalize_field_deeply ([CHR 0x22] @ ''accountId'' @ [CHR 0x22]) = ''account.id'' \<and>
   map_of deep_mappings (clean_field ''features.foo'') = None \<and>
   clean_field ''features.foo'' = ''features.'' @ ''foo'' \<and>
   normalize_field_deeply ''features.foo'' = ''website.'' @ ''foo'' \<and>
   map_of deep_mappings (clean_field ''wsbvnext.bar'') = None \<and>
   clean_field ''wsbvnext.bar'' = ''wsbvnext.'' @ ''bar'' \<and>
   normalize_field_deeply ''wsbvnext.bar'' = ''bar'' \<and>
   map_of deep_mappings (clean_field '' plain '') = None \<and>
   \<not> prefix ''features.'' (clean_field '' plain '') \<and>
   \<not> prefix ''vnextAccount.'' (clean_field '' plain '') \<and>
   \<not> prefix ''wsbvnext.'' (clean_field '' plain '') \<and>
   \<not> prefix ''mktgasst.'' (clean_field '' plain '') \<and>
   normalize_field_deeply '' plain '' = ''plain''"
  using normalize_field_deeply_cases [of "[CHR 0x22] @ ''accountId'' @ [CHR 0x22]" "''account.id''" "[]"]
    normalize_field_deeply_cases [of "''features.foo''" "[]" "''foo''"]
    normalize_field_deeply_cases [of "''wsbvnext.bar''" "[]" "''bar''"]
    normalize_field_deeply_cases [of "'' plain ''" "[]" "[]"]
  by (simp only: quoted_account_clean account_lookup foo_clean foo_lookup bar_clean bar_lookup
      plain_clean plain_lookup) simp

section \<open>Properties of \<open>extract_pure_graphql\<close>\<close>

lemma strip_both_ends:
  fixes P :: "'a \<Rightarrow> bool"
  defines "r \<equiv> \<lambda>s. rev (dropWhile P (rev (dropWhile P s)))"
  assumes ne: "r s \<noteq> []"
  shows "\<not> P (hd (r s)) \<and> \<not> P (last (r s))"
proof -
  let ?t = "dropWhile P s"
  let ?u = "dropWhile P (rev ?t)"
  have u: "?u \<noteq> []" using ne by (simp add: r_def)
  have l: "\<not> P (hd ?u)" using u by (rule hd_dropWhile)
  have "rev ?t = takeWhile P (rev ?t) @ ?u" by simp
  then have "?t = rev ?u @ rev (takeWhile P (rev ?t))"
    by (metis rev_append rev_rev_ident)
  then have h: "hd ?t = hd (rev ?u)" using u by (metis hd_append2 rev_is_Nil_conv)
  have t: "?t \<noteq> []"
  proof
    assume e: "?t = []"
    have "?u = []" by (simp add: e)
    with u show False by simp
  qed
  have "\<not> P (hd ?t)" using t by (rule hd_dropWhile)
  with h l u show ?thesis by (simp add: r_def last_rev)
qed

lemma py_strip_ends:
  "py_strip s \<noteq> [] \<Longrightarrow> \<not> py_isspace (hd (py_strip s)) \<and> \<not> py_isspace (last (py_strip s))"
  unfolding py_strip_def by (rule strip_both_ends)

text \<open>
  C10. \<open>extract_pure_graphql\<close> returns \<open>None\<close> exactly for \<open>None\<close> and for the empty string.
  For a non-empty string it returns the string with whitespace stripped, then the quote
  characters \<open>"\<close> and \<open>'\<close> stripped, then whitespace stripped again; the result carries no
  whitespace at either end. The function is total: no input raises.
\<close>

theorem extract_pure_graphql_spec:
  "(extract_pure_graphql q = None \<longleftrightarrow> q = None \<or> q = Some []) \<and>
   (s \<noteq> [] \<longrightarrow>
      (\<exists>r. extract_pure_graphql (Some s) = Some r \<and>
           r = py_strip (py_strip_chars [CHR 0x22, CHR 0x27] (py_strip s)) \<and>
           (r \<noteq> [] \<longrightarrow> \<not> py_isspace (hd r) \<and> \<not> py_isspace (last r))))"
  using py_strip_ends by (auto simp: extract_pure_graphql_def split: option.splits)

theorem extract_pure_graphql_witness:
  "[CHR '' '', CHR 0x27, CHR ''q'', CHR 0x27, CHR '' ''] \<noteq> [] \<and>
   extract_pure_graphql (Some [CHR '' '', CHR 0x27, CHR ''q'', CHR 0x27, CHR '' '']) = Some ''q'' \<and>
   extract_pure_graphql (Some '' '') = Some [] \<and>
   extract_pure_graphql (Some []) = None \<and> extract_pure_graphql None = None"
  using extract_pure_graphql_spec [of "Some []" "[CHR '' '', CHR 0x27, CHR ''q'', CHR 0x27, CHR '' '']"]
    extract_pure_graphql_spec [of None "'' ''"]
  by (simp add: py_strip_def py_strip_chars_def py_isspace_def)

section \<open>Properties of category bucketing and common patterns\<close>

lemma billing_dictionary: "categorize_field ''billing.commitment'' = ''Billing & Payments''"
  by (simp add: categorize_field_def any_in_def py_lower_def py_lower_char_def)

lemma billing_summary: "create_visual_summary_category ''billing.commitment'' = ''Billing & Payments''"
  by (simp add: create_visual_summary_category_def any_in_def py_lower_def py_lower_char_def)

lemma summary_first_match:
  "create_visual_summary_category field = first_match summary_table ''Other Data'' field"
  by (simp add: create_visual_summary_category_def first_match_def summary_table_def
      keyword_test_def py_startswith_def)

lemma dictionary_first_match:
  "categorize_field field = first_match dictionary_table ''Other'' field"
  by (simp add: categorize_field_def first_match_def dictionary_table_def keyword_test_def Let_def)

text \<open>
  C5. Category bucketing is a function of the field (deterministic) and the first test of
  the fixed list that holds decides: both chains equal \<open>first_match\<close> over their table. The
  field \<open>billing.commitment\<close> is assigned \<open>Billing & Payments\<close> by both.
\<close>

theorem category_first_match_wins:
  "create_visual_summary_category field = first_match summary_table ''Other Data'' field \<and>
   categorize_field field = first_match dictionary_table ''Other'' field \<and>
   create_visual_summary_category ''billing.commitment'' = ''Billing & Payments'' \<and>
   categorize_field ''billing.commitment'' = ''Billing & Payments''"
  using summary_first_match dictionary_first_match billing_dictionary billing_summary by simp

lemma bucket_not_content: "common_pattern_bucket field \<noteq> Some ''content''"
  by (simp add: common_pattern_bucket_def)

lemma bucket_append_other:
  "k \<noteq> k' \<Longrightarrow> map_of (bucket_append k v ps) k' = map_of ps k'"
  by (induction ps) auto

lemma bucket_append_keys: "map fst (bucket_append k v ps) = map fst ps"
  by (induction ps) auto

lemma fold_content:
  "map_of (fold (\<lambda>(field, count) patterns.
                    case common_pattern_bucket field of
                      Some key \<Rightarrow> bucket_append key (field, count) patterns
                    | None \<Rightarrow> patterns) fc ps) ''content'' = map_of ps ''content''"
proof (induction fc arbitrary: ps)
  case Nil
  then show ?case by simp
next
  case (Cons a fc)
  obtain field count where a: "a = (field, count)" by (cases a)
  show ?case
  proof (cases "common_pattern_bucket field")
    case None
    then show ?thesis using Cons a by simp
  next
    case (Some key)
    then have "key \<noteq> ''content''" using bucket_not_content [of field] by auto
    then show ?thesis using Cons a Some by (simp add: bucket_append_other)
  qed
qed

lemma map_of_map_snd:
  "map_of (map (\<lambda>(k, v). (k, f v)) ps) k = map_option f (map_of ps k)"
  by (induction ps) auto

lemma content_empty: "map_of (identify_common_patterns fc) ''content'' = Some []"
  unfolding identify_common_patterns_def Let_def
  by (simp add: map_of_map_snd fold_content initial_patterns_def py_sorted_desc_def)

lemma fold_keys:
  "map fst (fold (\<lambda>(field, count) patterns.
                    case common_pattern_bucket field of
                      Some key \<Rightarrow> bucket_append key (field, count) patterns
                    | None \<Rightarrow> patterns) fc ps) = map fst ps"
  by (induction fc arbitrary: ps) (auto simp: bucket_append_keys split: option.splits)

lemma map_fst_relabel: "map fst (map (\<lambda>(k, v). (k, f v)) ps) = map fst ps"
  by (induction ps) auto

lemma pattern_keys:
  "map fst (identify_common_patterns fc) =
     [''authentication'', ''billing'', ''features'', ''entitlements'', ''social_media'',
      ''commerce'', ''appointments'', ''content'']"
proof -
  have "map fst (identify_common_patterns fc) = map fst initial_patterns"
    unfolding identify_common_patterns_def Let_def
    by (simp only: map_fst_relabel fold_keys)
  then show ?thesis by (simp add: initial_patterns_def)
qed

lemma content_entries:
  assumes "(''content'', entries) \<in> set (identify_common_patterns fc)"
  shows "entries = []"
proof -
  have "distinct (map fst (identify_common_patterns fc))"
    by (simp add: pattern_keys)
  then have "map_of (identify_common_patterns fc) ''content'' = Some entries"
    using assms by (rule map_of_is_SomeI)
  then show ?thesis by (simp add: content_empty)
qed

lemma content_not_rendered:
  "filter (\<lambda>(category, entries). entries \<noteq> []) (identify_common_patterns fc) =
   filter (\<lambda>(category, entries). entries \<noteq> [])
     (filter (\<lambda>(category, entries). category \<noteq> ''content'') (identify_common_patterns fc))"
  using content_entries [of _ fc] by (auto intro!: filter_cong)

text \<open>
  C9. For every field counter, \<open>_identify_common_patterns\<close> maps \<open>content\<close> to the empty
  list, so the rendered section "Common Data Access Patterns", which has a block only for a
  category with a non-empty list, has no block for \<open>content\<close>.
\<close>

theorem content_bucket_always_empty:
  "map_of (identify_common_patterns field_counter) ''content'' = Some [] \<and>
   ''content'' \<notin> set (map fst (filter (\<lambda>(category, entries). entries \<noteq> [])
                                   (identify_common_patterns field_counter))) \<and>
   render_common_patterns (identify_common_patterns field_counter) =
     render_common_patterns
       (filter (\<lambda>(category, entries). category \<noteq> ''content'')
          (identify_common_patterns field_counter))"
proof -
  have a: "''content'' \<notin> set (map fst (filter (\<lambda>(category, entries). entries \<noteq> [])
                                   (identify_common_patterns field_counter)))"
    using content_entries [of _ field_counter] by auto
  have b: "render_common_patterns (identify_common_patterns field_counter) =
     render_common_patterns
       (filter (\<lambda>(category, entries). category \<noteq> ''content'')
          (identify_common_patterns field_counter))"
    unfolding render_common_patterns_def
    using content_not_rendered [of field_counter] by simp
  show ?thesis using content_empty a b by blast
qed


section \<open>The generators on zero sections\<close>

lemma comprehensive_report_empty: "generate_comprehensive_report init_analyzer = empty_report"
  by (simp add: generate_comprehensive_report_def init_analyzer_def empty_report_def
      identify_common_patterns_def initial_patterns_def most_common_def py_sorted_desc_def
      get_complexity_distribution_def get_return_pattern_distribution_def
      analyze_entity_relationships_def)

lemma unique_data_report_empty:
  "generate_unique_data_report [] =
     ''# Complete Unique Data Fields Used by RAD Synthesizers\<newline>\<newline>'' @
     ''## Summary\<newline>\<newline>'' @
     ''- **Total Unique Data Fields:** 0\<newline>'' @
     ''- **Total Synthesizers:** 0\<newline>\<newline>'' @
     ''## Top 20 Most Commonly Used Data\<newline>\<newline>'' @
     ''| Data Field | Used By | Category | Type | Description |\<newline>'' @
     ''|------------|---------|----------|------|-------------|\<newline>'' @
     ''\<newline>''"
  by (simp add: generate_unique_data_report_def py_sorted_desc_def str_of_nat.simps)

lemma visual_summary_no_accesses:
  assumes "concat (map an_field_accesses (synthesizer_details rep)) = []"
  shows "create_visual_summary rep = Inl ValueError"
  unfolding create_visual_summary_def Let_def assms by (simp add: py_max_def)

text \<open>
  C1. On the report of zero sections, \<open>generate_comprehensive_report\<close> returns the
  zero-count report and \<open>generate_unique_data_report\<close> returns its header with both counts
  zero, but \<open>create_visual_summary\<close> raises \<open>ValueError\<close>: it takes \<open>max\<close> of an empty
  sequence of usage counts.
\<close>

theorem zero_sections_visual_summary_raises:
  "synthesizer_details empty_report = [] \<and>
   generate_comprehensive_report init_analyzer = empty_report \<and>
   (\<exists>out. generate_unique_data_report [] = out) \<and>
   create_visual_summary empty_report = Inl ValueError"
proof -
  have d: "synthesizer_details empty_report = []" by (simp add: empty_report_def)
  then have "create_visual_summary empty_report = Inl ValueError"
    by (simp add: visual_summary_no_accesses)
  with d comprehensive_report_empty show ?thesis by simp
qed
end
